theory Spec2Isabelle
  imports Complex_Main "HOL-Library.Product_Lexorder"
begin

section \<open>Shift search of \<^verbatim>\<open>iss/stitch/shift.py\<close>\<close>

text \<open>
  The module works on numpy arrays of floats. A float is modelled as a \<^typ>\<open>real\<close>, so
  rounding error, overflow and underflow of the machine arithmetic are outside the model;
  a NaN is modelled where the code produces one from well-formed input (the mean of an
  empty array), as \<^const>\<open>None\<close>. An array of shape \<open>n \<times> 3\<close> is a list of triples
  \<open>(y, x, z)\<close>, a one-dimensional array is a list. Every exception the code can raise is
  a value of \<open>error\<close>, and a function that can raise returns \<open>error + 'a\<close>.
  \<open>ValueError\<close> is the Python exception the module's calls raise.
  \<open>DegenerateInputError\<close> is the class the spec names for an empty point cloud; the
  module does not define it and no statement raises it.
\<close>

type_synonym point = "real \<times> real \<times> real"

datatype error = ValueError | DegenerateInputError

subsection \<open>numpy primitives the module calls\<close>

text \<open>\<^verbatim>\<open>np.ediff1d\<close>: the differences of consecutive elements.\<close>

definition ediff1d :: "real list \<Rightarrow> real list" where
  "ediff1d array = map2 (\<lambda>b a. b - a) (tl array) array"

text \<open>\<^verbatim>\<open>np.mean\<close>: the mean of an empty array is NaN (with a warning, no exception).\<close>

definition mean :: "real list \<Rightarrow> real option" where
  "mean xs = (if xs = [] then None else Some (sum_list xs / real (length xs)))"

text \<open>
  \<^verbatim>\<open>np.arange(start, stop, step)\<close> on floats: \<open>\<lceil>(stop - start) / step\<rceil>\<close> values
  \<open>start + i * step\<close>, none when that count is not positive. A zero step makes the count
  NaN or infinite, and numpy raises ValueError for both. The count is the exact ceiling:
  it is the count of numpy wherever \<open>(stop - start) / step\<close> is computed without rounding,
  as it is on arrays of integer values.
\<close>

definition arange :: "real \<Rightarrow> real \<Rightarrow> real \<Rightarrow> error + real list" where
  "arange start stop step =
     (if step = 0 then Inl ValueError
      else Inr (map (\<lambda>i. start + real i * step) [0..<nat \<lceil>(stop - start) / step\<rceil>]))"

text \<open>\<^verbatim>\<open>array.min()\<close> and \<^verbatim>\<open>array.max()\<close>; both raise on an empty array, which the
  callers below check first.\<close>

fun amin :: "real list \<Rightarrow> real" where
  "amin [] = 0"
| "amin (x # xs) = fold min xs x"

fun amax :: "real list \<Rightarrow> real" where
  "amax [] = 0"
| "amax (x # xs) = fold max xs x"

text \<open>
  \<^verbatim>\<open>.astype(int)\<close> of a float: truncation towards zero into a 64-bit integer; a value
  outside the 64-bit range becomes \<open>-2\<^sup>6\<^sup>3\<close>.
\<close>

definition astype_int :: "real \<Rightarrow> int" where
  "astype_int r =
     (let t = (if 0 \<le> r then \<lfloor>r\<rfloor> else \<lceil>r\<rceil>)
      in if - (2 ^ 63) \<le> t \<and> t < 2 ^ 63 then t else - (2 ^ 63))"

subsection \<open>\<^verbatim>\<open>shift_score\<close>\<close>

text \<open>\<^verbatim>\<open>np.sum(np.exp(-distances**2 / (2*thresh**2)))\<close>, in exact arithmetic. The
  float64 \<^verbatim>\<open>np.exp\<close> of the code rounds, and underflows to \<open>0\<close> below about \<open>-745\<close>.\<close>

definition shift_score :: "real list \<Rightarrow> real \<Rightarrow> real" where
  "shift_score distances thresh =
     sum_list (map (\<lambda>d. exp (- (d\<^sup>2) / (2 * thresh\<^sup>2))) distances)"

subsection \<open>\<^verbatim>\<open>extend_array\<close>\<close>

text \<open>
  With \<open>extend_scale = 0\<close> the array is returned as it is and nothing else is looked at.
  Otherwise the step is the mean spacing; it is NaN for an array of fewer than two values,
  and then \<^verbatim>\<open>np.arange\<close> (or, on an empty array, \<^verbatim>\<open>array.min()\<close>) raises ValueError.
  Both extensions are computed before the direction is looked at.
\<close>

definition extend_array :: "real list \<Rightarrow> int \<Rightarrow> string \<Rightarrow> error + real list" where
  "extend_array array extend_scale direction =
     (if extend_scale = 0 then Inr array
      else
        (case mean (ediff1d array) of
           None \<Rightarrow> Inl ValueError
         | Some step \<Rightarrow>
             (case arange (amin array - real_of_int extend_scale * step) (amin array) step of
                Inl e \<Rightarrow> Inl e
              | Inr ext_below \<Rightarrow>
                  (case arange (amax array + step)
                          (amax array + real_of_int extend_scale * step + step / 2) step of
                     Inl e \<Rightarrow> Inl e
                   | Inr ext_above \<Rightarrow>
                       if direction = ''below'' then Inr (ext_below @ array)
                       else if direction = ''above'' then Inr (array @ ext_above)
                       else if direction = ''both'' then Inr (ext_below @ array @ ext_above)
                       else Inl ValueError))))"


subsection \<open>\<^verbatim>\<open>refined_shifts\<close>\<close>

text \<open>
  An array of one value is returned as it is. Otherwise the new step is
  \<^verbatim>\<open>np.ceil(refined_scale * step).astype(int)\<close> and the result is an \<^verbatim>\<open>np.arange\<close>
  around \<open>best_shift\<close>. On an empty array the step is NaN and \<^verbatim>\<open>np.arange\<close> raises.
\<close>

definition refined_shifts :: "real list \<Rightarrow> real \<Rightarrow> real \<Rightarrow> int \<Rightarrow> error + real list" where
  "refined_shifts shifts best_shift refined_scale extend_scale =
     (if length shifts = 1 then Inr shifts
      else
        (case mean (ediff1d shifts) of
           None \<Rightarrow> Inl ValueError
         | Some step \<Rightarrow>
             (let refined_step = real_of_int (astype_int (real_of_int \<lceil>refined_scale * step\<rceil>))
              in arange (best_shift - real_of_int extend_scale * step)
                   (best_shift + real_of_int extend_scale * step + refined_step / 2)
                   refined_step)))"

subsection \<open>Library calls of \<^verbatim>\<open>get_best_shift\<close>\<close>

text \<open>
  \<^verbatim>\<open>np.array(np.meshgrid(y_shifts, x_shifts, z_shifts)).T.reshape(-1, 3)\<close>: the rows
  \<open>(y, x, z)\<close> of the Cartesian product, \<open>x\<close> running fastest, then \<open>y\<close>, then \<open>z\<close>.
\<close>

definition meshgrid :: "real list \<Rightarrow> real list \<Rightarrow> real list \<Rightarrow> point list" where
  "meshgrid y_shifts x_shifts z_shifts =
     concat (map (\<lambda>z. concat (map (\<lambda>y. map (\<lambda>x. (y, x, z)) x_shifts) y_shifts)) z_shifts)"

text \<open>
  Modelled from the spec: \<^verbatim>\<open>setdiff2d\<close> is imported from \<^verbatim>\<open>..utils.base\<close>, which is not
  among the sources. The spec has the exclusion of the shifts already searched as "an
  explicit set-difference over candidate grids", implemented "as sorted-array set
  difference": the rows of the first array that are not rows of the second, each once,
  in ascending (lexicographic) order.
\<close>

definition setdiff2d :: "point list \<Rightarrow> point list \<Rightarrow> point list" where
  "setdiff2d array1 array2 = sort (remdups (filter (\<lambda>r. r \<notin> set array2) array1))"

text \<open>
  \<^verbatim>\<open>NearestNeighbors(n_neighbors=1).fit(yxz_transform).kneighbors(query)\<close> of
  scikit-learn: for each row of the query its Euclidean distance to the closest row of
  \<open>yxz_transform\<close>. Both \<^verbatim>\<open>fit\<close> and \<^verbatim>\<open>kneighbors\<close> raise ValueError on an array of no
  rows; \<open>get_best_shift\<close> below makes these checks.
\<close>

definition distance :: "point \<Rightarrow> point \<Rightarrow> real" where
  "distance p q =
     (case p of (py, px, pz) \<Rightarrow> case q of (qy, qx, qz) \<Rightarrow>
        sqrt ((py - qy)\<^sup>2 + (px - qx)\<^sup>2 + (pz - qz)\<^sup>2))"

definition kneighbors :: "point list \<Rightarrow> point list \<Rightarrow> real list" where
  "kneighbors yxz_transform query = map (\<lambda>p. amin (map (distance p) yxz_transform)) query"

text \<open>\<^verbatim>\<open>yxz_base + all_shifts[i]\<close>: the shift added to every row.\<close>

definition add_shift :: "point list \<Rightarrow> point \<Rightarrow> point list" where
  "add_shift yxz_base s =
     (case s of (sy, sx, sz) \<Rightarrow> map (\<lambda>(y, x, z). (y + sy, x + sx, z + sz)) yxz_base)"

text \<open>\<^verbatim>\<open>score.argmax()\<close>: the index of the first greatest element; the scan keeps the
  best index so far and replaces it on a strictly greater element.\<close>

fun argmax_scan :: "real list \<Rightarrow> nat \<Rightarrow> nat \<Rightarrow> real \<Rightarrow> nat" where
  "argmax_scan [] i best_i best_v = best_i"
| "argmax_scan (x # xs) i best_i best_v =
     (if best_v < x then argmax_scan xs (Suc i) i x else argmax_scan xs (Suc i) best_i best_v)"

fun argmax :: "real list \<Rightarrow> nat" where
  "argmax [] = 0"
| "argmax (x # xs) = argmax_scan xs 1 0 x"

text \<open>\<^verbatim>\<open>np.median\<close>: the middle of the sorted values, the mean of the two middle ones for
  an even count.\<close>

definition median :: "real list \<Rightarrow> real" where
  "median xs =
     (let s = sort xs; n = length xs
      in if odd n then s ! (n div 2) else (s ! (n div 2 - 1) + s ! (n div 2)) / 2)"

text \<open>\<^verbatim>\<open>np.percentile\<close> with linear interpolation, and \<^verbatim>\<open>scipy.stats.iqr\<close>: the 75th minus
  the 25th percentile.\<close>

definition percentile :: "real list \<Rightarrow> real \<Rightarrow> real" where
  "percentile xs q =
     (let s = sort xs;
          h = (real (length xs) - 1) * q / 100;
          lo = nat \<lfloor>h\<rfloor>;
          hi = min (lo + 1) (length xs - 1)
      in s ! lo + (h - real lo) * (s ! hi - s ! lo))"

definition iqr :: "real list \<Rightarrow> real" where
  "iqr xs = percentile xs 75 - percentile xs 25"

subsection \<open>\<^verbatim>\<open>get_best_shift\<close>\<close>

text \<open>
  The candidates are the grid, less \<open>ignore_shifts\<close> when given. The three ValueErrors, in
  the order the code reaches them: \<^verbatim>\<open>fit\<close> on an empty \<open>yxz_transform\<close>; \<^verbatim>\<open>argmax\<close> of an
  empty score array when no candidate is left (the loop body never runs); \<^verbatim>\<open>kneighbors\<close>
  on an empty \<open>yxz_base\<close> in the first run of the loop body. The result is
  \<open>(best_shift, best_score, median_score, iqr_score)\<close>.
\<close>

definition candidates :: "real list \<Rightarrow> real list \<Rightarrow> real list \<Rightarrow> point list option \<Rightarrow> point list" where
  "candidates y_shifts x_shifts z_shifts ignore_shifts =
     (case ignore_shifts of
        None \<Rightarrow> meshgrid y_shifts x_shifts z_shifts
      | Some ignored \<Rightarrow> setdiff2d (meshgrid y_shifts x_shifts z_shifts) ignored)"

definition get_best_shift ::
  "point list \<Rightarrow> point list \<Rightarrow> real \<Rightarrow> real list \<Rightarrow> real list \<Rightarrow> real list \<Rightarrow> point list option
     \<Rightarrow> error + (point \<times> real \<times> real \<times> real)" where
  "get_best_shift yxz_base yxz_transform score_thresh y_shifts x_shifts z_shifts ignore_shifts =
     (let all_shifts = candidates y_shifts x_shifts z_shifts ignore_shifts
      in if yxz_transform = [] then Inl ValueError
         else if all_shifts = [] then Inl ValueError
         else if yxz_base = [] then Inl ValueError
         else
           (let score = map (\<lambda>s. shift_score (kneighbors yxz_transform (add_shift yxz_base s))
                                    score_thresh) all_shifts;
                best_shift_ind = argmax score
            in Inr (all_shifts ! best_shift_ind, score ! best_shift_ind, median score, iqr score)))"

subsection \<open>\<^verbatim>\<open>compute_shift\<close>\<close>

text \<open>
  \<^verbatim>\<open>yxz_base[:, 2] = yxz_base[:, 2] * z_scale\<close> writes into the caller's array, so the
  model returns both arrays as they are after the call, beside the returned value.
  \<^verbatim>\<open>z_shifts*z_scale\<close> is \<open>scaled\<close>. The arrays are float arrays, as the docstring of
  \<open>get_best_shift\<close> has them; into an array of integers the assignment would also truncate.
  The model follows the code for \<open>z_scale \<noteq> 0\<close>; with \<open>z_scale = 0\<close> the code divides by
  zero into NaN, which a \<^typ>\<open>real\<close> does not have.
\<close>

definition scale_z :: "real \<Rightarrow> point list \<Rightarrow> point list" where
  "scale_z z_scale yxz = map (\<lambda>(y, x, z). (y, x, z * z_scale)) yxz"

definition scaled :: "real \<Rightarrow> real list \<Rightarrow> real list" where
  "scaled z_scale z_shifts = map (\<lambda>z. z * z_scale) z_shifts"

text \<open>The local variables that the widened search may replace.\<close>

record search_vars =
  sv_y_shifts :: "real list"
  sv_x_shifts :: "real list"
  sv_z_shifts :: "real list"
  sv_shift :: point
  sv_score :: real

text \<open>Lines 158 to 164: the widened search.\<close>

definition widened_search ::
  "point list \<Rightarrow> point list \<Rightarrow> real \<Rightarrow> real \<Rightarrow> point list \<Rightarrow> real \<Rightarrow> int \<Rightarrow> int \<Rightarrow> int
     \<Rightarrow> search_vars \<Rightarrow> error + search_vars" where
  "widened_search yxz_base yxz_transform shift_score_thresh z_scale initial_shifts min_score
       y_widen x_widen z_widen v =
     (if sv_score v < min_score \<and> 0 < max y_widen (max x_widen z_widen) then
        (case extend_array (sv_y_shifts v) y_widen ''both'' of
           Inl e \<Rightarrow> Inl e
         | Inr y_shifts \<Rightarrow>
        (case extend_array (sv_x_shifts v) x_widen ''both'' of
           Inl e \<Rightarrow> Inl e
         | Inr x_shifts \<Rightarrow>
        (case extend_array (sv_z_shifts v) z_widen ''both'' of
           Inl e \<Rightarrow> Inl e
         | Inr z_shifts \<Rightarrow>
        (case get_best_shift yxz_base yxz_transform shift_score_thresh
                y_shifts x_shifts (scaled z_scale z_shifts) (Some initial_shifts) of
           Inl e \<Rightarrow> Inl e
         | Inr (shift, score, score_median2, score_iqr2) \<Rightarrow>
             Inr \<lparr>sv_y_shifts = y_shifts, sv_x_shifts = x_shifts, sv_z_shifts = z_shifts,
                  sv_shift = shift, sv_score = score\<rparr>))))
      else Inr v)"

text \<open>Lines 165 to 180: the two refined searches, and the z shift divided by \<open>z_scale\<close>.
  The result is the shift and the score that line 181 returns. The \<^verbatim>\<open>refined_scale\<close> of
  the final search, \<^verbatim>\<open>1e-50\<close>, is \<open>1 / 10 ^ 50\<close>.\<close>

definition refined_search ::
  "point list \<Rightarrow> point list \<Rightarrow> real \<Rightarrow> real \<Rightarrow> point list \<Rightarrow> real \<Rightarrow> search_vars
     \<Rightarrow> error + (point \<times> real)" where
  "refined_search yxz_base yxz_transform shift_score_thresh z_scale initial_shifts min_score v =
     (if min_score < sv_score v then
        (case sv_shift v of (shift_y, shift_x, shift_z) \<Rightarrow>
        (case refined_shifts (sv_y_shifts v) shift_y (1 / 2) 2 of
           Inl e \<Rightarrow> Inl e
         | Inr y_shifts \<Rightarrow>
        (case refined_shifts (sv_x_shifts v) shift_x (1 / 2) 2 of
           Inl e \<Rightarrow> Inl e
         | Inr x_shifts \<Rightarrow>
        (case refined_shifts (sv_z_shifts v) (shift_z / z_scale) (1 / 2) 2 of
           Inl e \<Rightarrow> Inl e
         | Inr z_shifts \<Rightarrow>
        (case get_best_shift yxz_base yxz_transform shift_score_thresh
                y_shifts x_shifts (scaled z_scale z_shifts) (Some initial_shifts) of
           Inl e \<Rightarrow> Inl e
         | Inr (shift2, score2, m2, i2) \<Rightarrow>
        (case (if sv_score v < score2 then shift2 else sv_shift v) of
           (shift_y, shift_x, shift_z) \<Rightarrow>
        (case refined_shifts y_shifts shift_y (1 / 10 ^ 50) 1 of
           Inl e \<Rightarrow> Inl e
         | Inr y_shifts \<Rightarrow>
        (case refined_shifts x_shifts shift_x (1 / 10 ^ 50) 1 of
           Inl e \<Rightarrow> Inl e
         | Inr x_shifts \<Rightarrow>
        (case refined_shifts z_shifts (shift_z / z_scale) (1 / 10 ^ 50) 1 of
           Inl e \<Rightarrow> Inl e
         | Inr z_shifts \<Rightarrow>
        (case get_best_shift yxz_base yxz_transform shift_score_thresh
                y_shifts x_shifts (scaled z_scale z_shifts) (Some initial_shifts) of
           Inl e \<Rightarrow> Inl e
         | Inr ((shift_y, shift_x, shift_z), score, m3, i3) \<Rightarrow>
             Inr ((shift_y, shift_x, shift_z / z_scale), score)))))))))))
      else Inr (sv_shift v, sv_score v))"

text \<open>
  The whole function. The result is the two arrays of the caller after the call and what
  the call returns: \<open>(shift, score, min_score)\<close> or the exception.
\<close>

definition compute_shift ::
  "point list \<Rightarrow> point list \<Rightarrow> real option \<Rightarrow> real \<Rightarrow> real \<Rightarrow> real list \<Rightarrow> real list \<Rightarrow> real list
     \<Rightarrow> int \<Rightarrow> int \<Rightarrow> int \<Rightarrow> real
     \<Rightarrow> point list \<times> point list \<times> (error + ((int \<times> int \<times> int) \<times> real \<times> real))" where
  "compute_shift yxz_base0 yxz_transform0 min_score0 min_score_auto_param shift_score_thresh
       y_shifts x_shifts z_shifts y_widen x_widen z_widen z_scale =
     (let yxz_base = scale_z z_scale yxz_base0;
          yxz_transform = scale_z z_scale yxz_transform0
      in (yxz_base, yxz_transform,
          (case get_best_shift yxz_base yxz_transform shift_score_thresh
                  y_shifts x_shifts (scaled z_scale z_shifts) None of
             Inl e \<Rightarrow> Inl e
           | Inr (shift, score, score_median, score_iqr) \<Rightarrow>
               (let initial_shifts = meshgrid y_shifts x_shifts (scaled z_scale z_shifts);
                    min_score = (case min_score0 of
                                   None \<Rightarrow> score_median + min_score_auto_param * score_iqr
                                 | Some m \<Rightarrow> m)
                in (case widened_search yxz_base yxz_transform shift_score_thresh z_scale
                          initial_shifts min_score y_widen x_widen z_widen
                          \<lparr>sv_y_shifts = y_shifts, sv_x_shifts = x_shifts,
                           sv_z_shifts = z_shifts, sv_shift = shift, sv_score = score\<rparr> of
                      Inl e \<Rightarrow> Inl e
                    | Inr v \<Rightarrow>
                        (case refined_search yxz_base yxz_transform shift_score_thresh z_scale
                                initial_shifts min_score v of
                           Inl e \<Rightarrow> Inl e
                         | Inr ((shift_y, shift_x, shift_z), score_out) \<Rightarrow>
                             Inr ((astype_int shift_y, astype_int shift_x, astype_int shift_z),
                                  score_out, min_score)))))))"

subsection \<open>The spec's words, for comparison with the code\<close>

text \<open>
  The definitions of this subsection follow the spec, not the code. The score of a candidate shift
  is "the sum over all base points of \<open>exp(-d\<^sup>2/(2 * thresh\<^sup>2))\<close>" where \<open>d\<close> is the distance of
  the translated point to its nearest neighbour in the target cloud; the search space is
  the Cartesian product of the three axis sequences less the ignored shifts.
\<close>

definition translate :: "point \<Rightarrow> point \<Rightarrow> point" where
  "translate p s = (case p of (y, x, z) \<Rightarrow> case s of (sy, sx, sz) \<Rightarrow> (y + sy, x + sx, z + sz))"

definition spec_score :: "point list \<Rightarrow> point list \<Rightarrow> real \<Rightarrow> point \<Rightarrow> real" where
  "spec_score yxz_base yxz_transform thresh s =
     (\<Sum>p\<leftarrow>yxz_base. exp (- (Min ((\<lambda>q. distance (translate p s) q) ` set yxz_transform))\<^sup>2
                            / (2 * thresh\<^sup>2)))"

text \<open>
  An axis of the candidate grid "has uniform step size": \<open>n\<close> values from \<open>a\<close> in steps
  of \<open>step\<close>.
\<close>

definition uniform_axis :: "real \<Rightarrow> real \<Rightarrow> nat \<Rightarrow> real list" where
  "uniform_axis a step n = map (\<lambda>i. a + real i * step) [0..<n]"

definition searched_shifts :: "real list \<Rightarrow> real list \<Rightarrow> real list \<Rightarrow> point list option \<Rightarrow> point set" where
  "searched_shifts y_shifts x_shifts z_shifts ignore_shifts =
     {(y, x, z). y \<in> set y_shifts \<and> x \<in> set x_shifts \<and> z \<in> set z_shifts}
       - (case ignore_shifts of None \<Rightarrow> {} | Some ignored \<Rightarrow> set ignored)"

section \<open>Properties of \<^verbatim>\<open>shift_score\<close>\<close>

lemma kernel_le_one: "exp (- (d\<^sup>2) / (2 * thresh\<^sup>2)) \<le> (1::real)"
proof -
  have "- (d\<^sup>2) / (2 * thresh\<^sup>2) \<le> 0"
    by (simp add: divide_nonpos_nonneg)
  then show ?thesis by simp
qed

lemma kernel_strict_decreasing:
  fixes thresh :: real
  assumes "0 < thresh" "0 \<le> d1" "d1 < d2"
  shows "exp (- (d2\<^sup>2) / (2 * thresh\<^sup>2)) < exp (- (d1\<^sup>2) / (2 * thresh\<^sup>2))"
proof -
  have "d1\<^sup>2 < d2\<^sup>2"
    using assms by (simp add: power_strict_mono)
  moreover have "0 < 2 * thresh\<^sup>2"
    using assms by simp
  ultimately have "- (d2\<^sup>2) / (2 * thresh\<^sup>2) < - (d1\<^sup>2) / (2 * thresh\<^sup>2)"
    by (simp add: divide_strict_right_mono)
  then show ?thesis by simp
qed

lemma kernel_decreasing:
  fixes thresh :: real
  assumes "0 < thresh" "0 \<le> d1" "d1 \<le> d2"
  shows "exp (- (d2\<^sup>2) / (2 * thresh\<^sup>2)) \<le> exp (- (d1\<^sup>2) / (2 * thresh\<^sup>2))"
proof (cases "d1 = d2")
  case True
  then show ?thesis by simp
next
  case False
  with assms have "d1 < d2" by simp
  from kernel_strict_decreasing [OF assms(1) assms(2) this] show ?thesis by simp
qed

lemma shift_score_Nil: "shift_score [] thresh = 0"
  by (simp add: shift_score_def)

lemma shift_score_Cons:
  "shift_score (d # ds) thresh = exp (- (d\<^sup>2) / (2 * thresh\<^sup>2)) + shift_score ds thresh"
  by (simp add: shift_score_def)

lemma shift_score_zeros: "shift_score (replicate n 0) thresh = real n"
  by (induction n) (simp_all add: shift_score_Nil shift_score_Cons)

lemma shift_score_le_length: "shift_score ds thresh \<le> real (length ds)"
proof (induction ds)
  case Nil
  then show ?case by (simp add: shift_score_Nil)
next
  case (Cons d ds)
  have "exp (- (d\<^sup>2) / (2 * thresh\<^sup>2)) + shift_score ds thresh \<le> 1 + real (length ds)"
    by (rule add_mono [OF kernel_le_one Cons.IH])
  then show ?case unfolding shift_score_Cons by simp
qed

lemma shift_score_mono:
  assumes "0 < thresh" "length ds = length es"
    and "\<forall>i<length ds. 0 \<le> ds ! i \<and> ds ! i \<le> es ! i"
  shows "shift_score es thresh \<le> shift_score ds thresh"
  using assms(2,3)
proof (induction ds es rule: list_induct2)
  case Nil
  then show ?case by simp
next
  case (Cons d ds e es)
  from Cons.prems have hd: "0 \<le> d" "d \<le> e" by auto
  from Cons.prems have "\<forall>i<length ds. 0 \<le> ds ! i \<and> ds ! i \<le> es ! i" by fastforce
  then have "shift_score es thresh \<le> shift_score ds thresh" by (rule Cons.IH)
  moreover have "exp (- (e\<^sup>2) / (2 * thresh\<^sup>2)) \<le> exp (- (d\<^sup>2) / (2 * thresh\<^sup>2))"
    by (rule kernel_decreasing [OF assms(1) hd])
  ultimately show ?case unfolding shift_score_Cons by (intro add_mono)
qed

lemma shift_score_strict_mono:
  assumes "0 < thresh" "length ds = length es"
    and "\<forall>i<length ds. 0 \<le> ds ! i \<and> ds ! i \<le> es ! i"
    and "\<exists>i<length ds. ds ! i < es ! i"
  shows "shift_score es thresh < shift_score ds thresh"
  using assms(2,3,4)
proof (induction ds es rule: list_induct2)
  case Nil
  then show ?case by simp
next
  case (Cons d ds e es)
  from Cons.prems have hd: "0 \<le> d" "d \<le> e" by auto
  from Cons.prems have tl: "\<forall>i<length ds. 0 \<le> ds ! i \<and> ds ! i \<le> es ! i" by fastforce
  have le_tl: "shift_score es thresh \<le> shift_score ds thresh"
    by (rule shift_score_mono [OF assms(1) Cons.hyps tl])
  have le_hd: "exp (- (e\<^sup>2) / (2 * thresh\<^sup>2)) \<le> exp (- (d\<^sup>2) / (2 * thresh\<^sup>2))"
    by (rule kernel_decreasing [OF assms(1) hd])
  from Cons.prems(2) obtain i where i: "i < Suc (length ds)" "(d # ds) ! i < (e # es) ! i"
    by auto
  show ?case
  proof (cases i)
    case 0
    with i have "d < e" by simp
    from kernel_strict_decreasing [OF assms(1) hd(1) this] le_tl
    show ?thesis unfolding shift_score_Cons by (rule add_less_le_mono)
  next
    case (Suc j)
    with i have "\<exists>j<length ds. ds ! j < es ! j" by auto
    with tl have "shift_score es thresh < shift_score ds thresh" by (rule Cons.IH)
    with le_hd show ?thesis unfolding shift_score_Cons by (rule add_le_less_mono)
  qed
qed

text \<open>
  The score in exact arithmetic, for every \<open>thresh > 0\<close>: a score over \<open>n\<close> distances is at
  most the score of \<open>n\<close> distances that are all \<open>0\<close> (which is \<open>n\<close>); the contribution of one
  point is strictly decreasing in its distance \<open>d \<ge> 0\<close>; and a score over a fixed number of
  points strictly decreases when no distance decreases and at least one increases. This
  is a property of the formula over the reals. The float64 score of the code is not
  strictly decreasing: \<^verbatim>\<open>np.exp\<close> underflows to \<open>0\<close> for large distances and rounds to \<open>1\<close>
  for tiny ones, so C9 is not a statement about the definitions of this theory.
\<close>

theorem shift_score_max_at_zero_strictly_decreasing:
  "0 < thresh \<Longrightarrow>
     (\<forall>ds. shift_score ds thresh \<le> shift_score (replicate (length ds) 0) thresh
          \<and> shift_score (replicate (length ds) 0) thresh = real (length ds))
   \<and> (\<forall>d1 d2. 0 \<le> d1 \<and> d1 < d2 \<longrightarrow> shift_score [d2] thresh < shift_score [d1] thresh)
   \<and> (\<forall>ds es. length ds = length es
          \<and> (\<forall>i<length ds. 0 \<le> ds ! i \<and> ds ! i \<le> es ! i)
          \<and> (\<exists>i<length ds. ds ! i < es ! i)
        \<longrightarrow> shift_score es thresh < shift_score ds thresh)"
proof (intro conjI allI impI)
  fix ds
  show "shift_score ds thresh \<le> shift_score (replicate (length ds) 0) thresh"
    by (simp add: shift_score_zeros shift_score_le_length)
  show "shift_score (replicate (length ds) 0) thresh = real (length ds)"
    by (rule shift_score_zeros)
next
  fix d1 d2 :: real
  assume t: "0 < thresh" and "0 \<le> d1 \<and> d1 < d2"
  then have "0 \<le> d1" "d1 < d2" by simp_all
  from kernel_strict_decreasing [OF t this]
  show "shift_score [d2] thresh < shift_score [d1] thresh"
    by (simp add: shift_score_def)
next
  fix ds es :: "real list"
  assume t: "0 < thresh"
    and h: "length ds = length es
          \<and> (\<forall>i<length ds. 0 \<le> ds ! i \<and> ds ! i \<le> es ! i)
          \<and> (\<exists>i<length ds. ds ! i < es ! i)"
  from h have a: "length ds = length es"
    and b: "\<forall>i<length ds. 0 \<le> ds ! i \<and> ds ! i \<le> es ! i"
    and c: "\<exists>i<length ds. ds ! i < es ! i" by blast+
  show "shift_score es thresh < shift_score ds thresh"
    by (rule shift_score_strict_mono [OF t a b c])
qed

theorem shift_score_max_at_zero_strictly_decreasing_witness:
  "0 < (2::real)
   \<and> shift_score [1, 2] 2 \<le> shift_score [0, 0] 2
   \<and> shift_score [0, 0] 2 = 2
   \<and> shift_score [3] 2 < shift_score [1] 2
   \<and> shift_score [0, 3] 2 < shift_score [0, 1] 2"
proof -
  have t: "0 < (2::real)" by simp
  note th = shift_score_max_at_zero_strictly_decreasing [OF t]
  from th have a: "shift_score [1, 2] 2 \<le> shift_score (replicate (length [1, 2::real]) 0) 2
      \<and> shift_score (replicate (length [1, 2::real]) 0) 2 = real (length [1, 2::real])"
    by blast
  from th have b: "0 \<le> (1::real) \<and> (1::real) < 3 \<longrightarrow> shift_score [3] 2 < shift_score [1] 2"
    by blast
  from th have c: "length [0, 1::real] = length [0, 3::real]
        \<and> (\<forall>i<length [0, 1::real]. 0 \<le> [0, 1::real] ! i \<and> [0, 1::real] ! i \<le> [0, 3] ! i)
        \<and> (\<exists>i<length [0, 1::real]. [0, 1::real] ! i < [0, 3] ! i)
      \<longrightarrow> shift_score [0, 3] 2 < shift_score [0, 1] 2"
    by blast
  have p1: "\<forall>i<length [0, 1::real]. 0 \<le> [0, 1::real] ! i \<and> [0, 1::real] ! i \<le> [0, 3] ! i"
    by (simp add: nth_Cons' less_Suc_eq)
  have p2: "\<exists>i<length [0, 1::real]. [0, 1::real] ! i < [0, 3] ! i"
    by (rule exI [of _ 1]) simp
  from a b c p1 p2 t show ?thesis by simp
qed

section \<open>Properties of \<^verbatim>\<open>extend_array\<close>\<close>

text \<open>
  C10. With \<open>extend_scale = 0\<close> the array comes back unchanged whatever the direction
  string is; with \<open>extend_scale \<noteq> 0\<close> a direction other than \<open>below\<close>, \<open>above\<close> or \<open>both\<close>
  ends in a ValueError and no array.
\<close>

theorem extend_array_checks_direction_only_when_extending:
  "extend_array array 0 direction = Inr array
   \<and> (extend_scale \<noteq> 0 \<and> direction \<noteq> ''below'' \<and> direction \<noteq> ''above'' \<and> direction \<noteq> ''both''
        \<longrightarrow> extend_array array extend_scale direction = Inl ValueError)"
  by (auto simp: extend_array_def arange_def split: option.splits sum.splits)

theorem extend_array_checks_direction_only_when_extending_witness:
  "extend_array [0, 1] 0 ''sideways'' = Inr [0, 1]
   \<and> extend_array [0, 1] 3 ''sideways'' = Inl ValueError
   \<and> extend_array [0, 1] 3 ''both'' = Inr [-3, -2, -1, 0, 1, 2, 3, 4]"
  using extend_array_checks_direction_only_when_extending [of "[0, 1]" "''sideways''" 3]
  by (simp add: extend_array_def arange_def mean_def ediff1d_def upt_conv_Cons)

section \<open>Properties of \<^verbatim>\<open>get_best_shift\<close>\<close>

lemma amin_eq_Min: "xs \<noteq> [] \<Longrightarrow> amin xs = Min (set xs)"
  by (cases xs) (simp_all add: Min.set_eq_fold del: set_simps)

lemma amax_eq_Max: "xs \<noteq> [] \<Longrightarrow> amax xs = Max (set xs)"
  by (cases xs) (simp_all add: Max.set_eq_fold del: set_simps)

lemma argmax_scan_correct:
  assumes "best_i < length pre" "pre ! best_i = best_v" "\<forall>x\<in>set pre. x \<le> best_v" "i = length pre"
  shows "argmax_scan xs i best_i best_v < length pre + length xs
       \<and> (\<forall>x\<in>set (pre @ xs). x \<le> (pre @ xs) ! argmax_scan xs i best_i best_v)"
  using assms
proof (induction xs arbitrary: pre i best_i best_v)
  case Nil
  then show ?case by simp
next
  case (Cons x xs)
  show ?case
  proof (cases "best_v < x")
    case True
    have a: "i < length (pre @ [x])" using Cons.prems by simp
    have b: "(pre @ [x]) ! i = x" using Cons.prems by simp
    have c: "\<forall>y\<in>set (pre @ [x]). y \<le> x" using Cons.prems True by fastforce
    have d: "Suc i = length (pre @ [x])" using Cons.prems by simp
    from Cons.IH [OF a b c d] True show ?thesis by simp
  next
    case False
    have a: "best_i < length (pre @ [x])" using Cons.prems by simp
    have b: "(pre @ [x]) ! best_i = best_v" using Cons.prems by (simp add: nth_append)
    have c: "\<forall>y\<in>set (pre @ [x]). y \<le> best_v" using Cons.prems False by fastforce
    have d: "Suc i = length (pre @ [x])" using Cons.prems by simp
    from Cons.IH [OF a b c d] False show ?thesis by simp
  qed
qed

lemma argmax_correct:
  assumes "xs \<noteq> []"
  shows "argmax xs < length xs \<and> (\<forall>x\<in>set xs. x \<le> xs ! argmax xs)"
proof -
  from assms obtain y ys where xs: "xs = y # ys" by (cases xs) auto
  have "argmax_scan ys 1 0 y < length [y] + length ys
       \<and> (\<forall>x\<in>set ([y] @ ys). x \<le> ([y] @ ys) ! argmax_scan ys 1 0 y)"
    by (rule argmax_scan_correct) simp_all
  with xs show ?thesis by simp
qed

lemma set_meshgrid:
  "set (meshgrid ys xs zs) = {(y, x, z). y \<in> set ys \<and> x \<in> set xs \<and> z \<in> set zs}"
  by (auto simp: meshgrid_def)

lemma set_setdiff2d: "set (setdiff2d a b) = set a - set b"
  by (auto simp: setdiff2d_def)

lemma set_candidates: "set (candidates ys xs zs ignore) = searched_shifts ys xs zs ignore"
  by (cases ignore) (simp_all add: candidates_def searched_shifts_def set_meshgrid set_setdiff2d)

lemma add_shift_translate: "add_shift yxz_base s = map (\<lambda>p. translate p s) yxz_base"
  by (cases s) (auto simp: add_shift_def translate_def)

lemma score_eq_spec_score:
  assumes "yxz_transform \<noteq> []"
  shows "shift_score (kneighbors yxz_transform (add_shift yxz_base s)) thresh
         = spec_score yxz_base yxz_transform thresh s"
proof -
  have "amin (map (distance p) yxz_transform) = Min (distance p ` set yxz_transform)" for p
    using assms by (simp add: amin_eq_Min)
  then show ?thesis
    by (simp add: shift_score_def kneighbors_def add_shift_translate spec_score_def comp_def)
qed


lemma get_best_shift_Inr:
  assumes "yxz_base \<noteq> []" "yxz_transform \<noteq> []" "candidates ys xs zs ignore \<noteq> []"
  shows "get_best_shift yxz_base yxz_transform thresh ys xs zs ignore =
           Inr (candidates ys xs zs ignore
                  ! argmax (map (spec_score yxz_base yxz_transform thresh) (candidates ys xs zs ignore)),
                map (spec_score yxz_base yxz_transform thresh) (candidates ys xs zs ignore)
                  ! argmax (map (spec_score yxz_base yxz_transform thresh) (candidates ys xs zs ignore)),
                median (map (spec_score yxz_base yxz_transform thresh) (candidates ys xs zs ignore)),
                iqr (map (spec_score yxz_base yxz_transform thresh) (candidates ys xs zs ignore)))"
proof -
  have "(\<lambda>s. shift_score (kneighbors yxz_transform (add_shift yxz_base s)) thresh)
          = spec_score yxz_base yxz_transform thresh"
    using assms(2) by (simp add: score_eq_spec_score fun_eq_iff)
  with assms show ?thesis
    by (simp add: get_best_shift_def Let_def)
qed

lemma score_two_points:
  "shift_score (kneighbors [(1, 0, 0), (6, 0, 0)] (add_shift [(0, 0, 0), (5, 0, 0)] (y, 0, 0))) 2
     = exp (- ((min \<bar>y - 1\<bar> \<bar>y - 6\<bar>)\<^sup>2) / 8) + exp (- ((min \<bar>y + 4\<bar> \<bar>y - 1\<bar>)\<^sup>2) / 8)"
  by (simp add: shift_score_def kneighbors_def add_shift_def distance_def min.commute algebra_simps)

lemma stats_three:
  "median [2 * exp (- (1 / 2)), 2, 2 * exp (- (1 / 8))] = 2 * exp (- (1 / 8))
   \<and> iqr [2 * exp (- (1 / 2)), 2, 2 * exp (- (1 / 8))] = 1 - exp (- (1 / 2))"
  by (simp add: median_def iqr_def percentile_def Let_def field_simps)

lemma eval_two_points:
  "get_best_shift [(0, 0, 0), (5, 0, 0)] [(1, 0, 0), (6, 0, 0)] 2 [-1, 0, 1, 2] [0] [0] (Some [(0, 0, 0)])
     = Inr ((1, 0, 0), 2, 2 * exp (- (1 / 8)), 1 - exp (- (1 / 2)))"
  by (simp add: get_best_shift_def candidates_def meshgrid_def setdiff2d_def score_two_points Let_def stats_three)

text \<open>
  C1, as amended. For non-empty clouds, \<open>thresh > 0\<close> and a grid that leaves at least one
  shift to search once the ignored shifts are removed, \<open>get_best_shift\<close> returns a searched
  shift whose score, the sum over the base points of \<open>exp(-d\<^sup>2/(2 * thresh\<^sup>2))\<close> with \<open>d\<close> the
  nearest-neighbour distance of the translated point, is the greatest of all searched
  shifts, with the median and the interquartile range of the scores of all searched
  shifts. The searched shifts are the Cartesian product of the axes less the ignored
  shifts.
\<close>

theorem get_best_shift_max_score:
  assumes "yxz_base \<noteq> []" and "yxz_transform \<noteq> []" and "0 < thresh"
    and "searched_shifts ys xs zs ignore \<noteq> {}"
  shows "\<exists>best.
           get_best_shift yxz_base yxz_transform thresh ys xs zs ignore =
             Inr (best, spec_score yxz_base yxz_transform thresh best,
                  median (map (spec_score yxz_base yxz_transform thresh) (candidates ys xs zs ignore)),
                  iqr (map (spec_score yxz_base yxz_transform thresh) (candidates ys xs zs ignore)))
         \<and> best \<in> searched_shifts ys xs zs ignore
         \<and> (\<forall>c\<in>searched_shifts ys xs zs ignore.
               spec_score yxz_base yxz_transform thresh c
                 \<le> spec_score yxz_base yxz_transform thresh best)
         \<and> set (candidates ys xs zs ignore) = searched_shifts ys xs zs ignore"
proof -
  let ?cs = "candidates ys xs zs ignore"
  let ?f = "spec_score yxz_base yxz_transform thresh"
  let ?i = "argmax (map ?f ?cs)"
  from assms(4) have ne: "?cs \<noteq> []"
    using set_candidates [of ys xs zs ignore] by auto
  then have "map ?f ?cs \<noteq> []" by simp
  from argmax_correct [OF this]
  have i0: "?i < length (map ?f ?cs)" and mx: "\<forall>x\<in>set (map ?f ?cs). x \<le> map ?f ?cs ! ?i"
    by blast+
  from i0 have i: "?i < length ?cs" by simp
  from i have val: "map ?f ?cs ! ?i = ?f (?cs ! ?i)" by simp
  have 1: "get_best_shift yxz_base yxz_transform thresh ys xs zs ignore =
             Inr (?cs ! ?i, ?f (?cs ! ?i), median (map ?f ?cs), iqr (map ?f ?cs))"
    using get_best_shift_Inr [OF assms(1) assms(2) ne, of thresh] val by simp
  from i have 2: "?cs ! ?i \<in> searched_shifts ys xs zs ignore"
    using set_candidates [of ys xs zs ignore] nth_mem by blast
  have 3: "\<forall>c\<in>searched_shifts ys xs zs ignore. ?f c \<le> ?f (?cs ! ?i)"
  proof
    fix c assume "c \<in> searched_shifts ys xs zs ignore"
    then have "c \<in> set ?cs" by (simp add: set_candidates)
    then have "?f c \<in> set (map ?f ?cs)" by simp
    with mx val show "?f c \<le> ?f (?cs ! ?i)" by metis
  qed
  from 1 2 3 set_candidates [of ys xs zs ignore] show ?thesis by blast
qed

theorem get_best_shift_max_score_witness:
  "get_best_shift [(0, 0, 0), (5, 0, 0)] [(1, 0, 0), (6, 0, 0)] 2 [-1, 0, 1, 2] [0] [0]
       (Some [(0, 0, 0)])
     = Inr ((1, 0, 0), 2, 2 * exp (- (1 / 8)), 1 - exp (- (1 / 2)))
   \<and> (1, 0, 0) \<in> searched_shifts [-1, 0, 1, 2] [0] [0] (Some [(0, 0, 0)])
   \<and> spec_score [(0, 0, 0), (5, 0, 0)] [(1, 0, 0), (6, 0, 0)] 2 (1, 0, 0) = 2
   \<and> spec_score [(0, 0, 0), (5, 0, 0)] [(1, 0, 0), (6, 0, 0)] 2 (2, 0, 0) \<le> 2
   \<and> spec_score [(0, 0, 0), (5, 0, 0)] [(1, 0, 0), (6, 0, 0)] 2 (- 1, 0, 0) \<le> 2
   \<and> median (map (spec_score [(0, 0, 0), (5, 0, 0)] [(1, 0, 0), (6, 0, 0)] 2)
               (candidates [-1, 0, 1, 2] [0] [0] (Some [(0, 0, 0)]))) = 2 * exp (- (1 / 8))
   \<and> iqr (map (spec_score [(0, 0, 0), (5, 0, 0)] [(1, 0, 0), (6, 0, 0)] 2)
               (candidates [-1, 0, 1, 2] [0] [0] (Some [(0, 0, 0)]))) = 1 - exp (- (1 / 2))"
proof -
  let ?B = "[(0, 0, 0), (5, 0, 0)] :: point list"
  let ?T = "[(1, 0, 0), (6, 0, 0)] :: point list"
  let ?S = "searched_shifts [-1, 0, 1, 2] [0] [0] (Some [(0, 0, 0)])"
  have m1: "(1, 0, 0) \<in> ?S" and m2: "(2, 0, 0) \<in> ?S" and m3: "(- 1, 0, 0) \<in> ?S"
    by (simp_all add: searched_shifts_def)
  have h1: "?B \<noteq> []" and h2: "?T \<noteq> []" and h3: "(0::real) < 2" by simp_all
  from m1 have h4: "?S \<noteq> {}" by blast
  from get_best_shift_max_score [OF h1 h2 h3 h4]
  obtain best where
    g: "get_best_shift ?B ?T 2 [-1, 0, 1, 2] [0] [0] (Some [(0, 0, 0)]) =
          Inr (best, spec_score ?B ?T 2 best,
               median (map (spec_score ?B ?T 2) (candidates [-1, 0, 1, 2] [0] [0] (Some [(0, 0, 0)]))),
               iqr (map (spec_score ?B ?T 2) (candidates [-1, 0, 1, 2] [0] [0] (Some [(0, 0, 0)]))))"
    and mx: "\<forall>c\<in>?S. spec_score ?B ?T 2 c \<le> spec_score ?B ?T 2 best"
    by blast
  have "Inr (best, spec_score ?B ?T 2 best,
               median (map (spec_score ?B ?T 2) (candidates [-1, 0, 1, 2] [0] [0] (Some [(0, 0, 0)]))),
               iqr (map (spec_score ?B ?T 2) (candidates [-1, 0, 1, 2] [0] [0] (Some [(0, 0, 0)]))))
          = (Inr ((1, 0, 0), 2, 2 * exp (- (1 / 8)), 1 - exp (- (1 / 2)))
              :: error + (point \<times> real \<times> real \<times> real))"
    using g eval_two_points by (rule trans [OF sym])
  then have all: "best = (1, 0, 0) \<and> spec_score ?B ?T 2 best = 2
      \<and> median (map (spec_score ?B ?T 2) (candidates [-1, 0, 1, 2] [0] [0] (Some [(0, 0, 0)])))
               = 2 * exp (- (1 / 8))
      \<and> iqr (map (spec_score ?B ?T 2) (candidates [-1, 0, 1, 2] [0] [0] (Some [(0, 0, 0)])))
               = 1 - exp (- (1 / 2))"
    by auto
  from all have b: "best = (1, 0, 0)" and sc: "spec_score ?B ?T 2 best = 2"
    and md: "median (map (spec_score ?B ?T 2) (candidates [-1, 0, 1, 2] [0] [0] (Some [(0, 0, 0)])))
               = 2 * exp (- (1 / 8))"
    and iq: "iqr (map (spec_score ?B ?T 2) (candidates [-1, 0, 1, 2] [0] [0] (Some [(0, 0, 0)])))
               = 1 - exp (- (1 / 2))"
    by blast+
  from mx m2 sc have le2: "spec_score ?B ?T 2 (2, 0, 0) \<le> 2" by metis
  from mx m3 sc have le3: "spec_score ?B ?T 2 (- 1, 0, 0) \<le> 2" by metis
  from sc b have sc1: "spec_score ?B ?T 2 (1, 0, 0) = 2" by simp
  from eval_two_points m1 sc1 le2 le3 md iq show ?thesis by blast
qed

text \<open>
  The claim as stated is for every grid. When every shift of the grid is ignored, or an
  axis has no value, no shift is left to search and \<^verbatim>\<open>argmax\<close> of the empty score array
  raises ValueError.
\<close>

theorem get_best_shift_nothing_left_to_search:
  "get_best_shift [(0, 0, 0)] [(1, 0, 0)] 2 [0, 1] [0] [0] (Some [(0, 0, 0), (1, 0, 0)])
     = Inl ValueError
   \<and> get_best_shift [(0, 0, 0)] [(1, 0, 0)] 2 [] [0] [0] None = Inl ValueError"
  by (simp add: get_best_shift_def candidates_def meshgrid_def setdiff2d_def)

lemma get_best_shift_empty:
  "yxz_base = [] \<or> yxz_transform = [] \<Longrightarrow>
     get_best_shift yxz_base yxz_transform thresh ys xs zs ignore = Inl ValueError"
  by (auto simp: get_best_shift_def Let_def)

lemma scale_z_Nil_iff: "scale_z z_scale yxz = [] \<longleftrightarrow> yxz = []"
  by (simp add: scale_z_def)

text \<open>
  C4, as amended. With an empty base cloud or an empty target cloud \<open>get_best_shift\<close>
  fails, and so does \<open>compute_shift\<close>; the exception is the ValueError that scikit-learn
  raises on an array of no rows (or \<^verbatim>\<open>argmax\<close> on no scores). The module makes no check
  of its own and has no DegenerateInputError.
\<close>

theorem empty_cloud_fails:
  "yxz_base = [] \<or> yxz_transform = [] \<Longrightarrow>
     get_best_shift yxz_base yxz_transform thresh ys xs zs ignore = Inl ValueError
   \<and> snd (snd (compute_shift yxz_base yxz_transform min_score k thresh ys xs zs
                    y_widen x_widen z_widen z_scale)) = Inl ValueError"
proof -
  assume e: "yxz_base = [] \<or> yxz_transform = []"
  then have "scale_z z_scale yxz_base = [] \<or> scale_z z_scale yxz_transform = []"
    by (simp add: scale_z_Nil_iff)
  then have "get_best_shift (scale_z z_scale yxz_base) (scale_z z_scale yxz_transform) thresh
               ys xs (scaled z_scale zs) None = Inl ValueError"
    by (rule get_best_shift_empty)
  then have "snd (snd (compute_shift yxz_base yxz_transform min_score k thresh ys xs zs
                    y_widen x_widen z_widen z_scale)) = Inl ValueError"
    by (simp add: compute_shift_def Let_def)
  with e show ?thesis by (simp add: get_best_shift_empty)
qed

theorem empty_cloud_fails_witness:
  "get_best_shift [] [(0, 0, 0)] 2 [0] [0] [0] None = Inl ValueError
   \<and> snd (snd (compute_shift [] [(0, 0, 0)] None 5 2 [0] [0] [0] 0 0 0 1)) = Inl ValueError
   \<and> get_best_shift [(0, 0, 0)] [] 2 [0] [0] [0] None = Inl ValueError"
  using empty_cloud_fails [of "[]" "[(0, 0, 0)]" 2 "[0]" "[0]" "[0]" None None 5 0 0 0 1]
    empty_cloud_fails [of "[(0, 0, 0)]" "[]" 2 "[0]" "[0]" "[0]" None None 5 0 0 0 1]
  by simp

text \<open>The claim as stated names DegenerateInputError; the exception is another one.\<close>

theorem empty_cloud_error_is_ValueError:
  "get_best_shift [] [(1, 2, 3)] 2 [0] [0] [0] None = Inl ValueError
   \<and> get_best_shift [] [(1, 2, 3)] 2 [0] [0] [0] None \<noteq> Inl DegenerateInputError
   \<and> snd (snd (compute_shift [(1, 2, 3)] [] None 5 2 [0] [0] [0] 0 0 0 1)) \<noteq> Inl DegenerateInputError"
  by (simp add: get_best_shift_def compute_shift_def scale_z_def Let_def)

section \<open>Extending a uniform axis\<close>

lemma length_uniform_axis: "length (uniform_axis a s n) = n"
  by (simp add: uniform_axis_def)

lemma nth_uniform_axis: "i < n \<Longrightarrow> uniform_axis a s n ! i = a + real i * s"
  by (simp add: uniform_axis_def)

lemma uniform_axis_Nil_iff: "uniform_axis a s n = [] \<longleftrightarrow> n = 0"
  by (simp add: uniform_axis_def)

lemma ediff1d_uniform_axis: "ediff1d (uniform_axis a s n) = replicate (n - 1) s"
proof (rule nth_equalityI)
  show "length (ediff1d (uniform_axis a s n)) = length (replicate (n - 1) s)"
    by (simp add: ediff1d_def length_uniform_axis)
next
  fix i assume "i < length (ediff1d (uniform_axis a s n))"
  then have i: "i < n - 1" by (simp add: ediff1d_def length_uniform_axis)
  then have "tl (uniform_axis a s n) ! i = uniform_axis a s n ! Suc i"
    by (simp add: nth_tl length_uniform_axis)
  with i have "ediff1d (uniform_axis a s n) ! i = (a + real (Suc i) * s) - (a + real i * s)"
    by (simp add: ediff1d_def length_uniform_axis nth_uniform_axis)
  also have "\<dots> = s" by (simp add: algebra_simps)
  finally show "ediff1d (uniform_axis a s n) ! i = replicate (n - 1) s ! i"
    using i by simp
qed

lemma mean_replicate: "0 < k \<Longrightarrow> mean (replicate k s) = Some s"
  by (simp add: mean_def sum_list_replicate)

lemma amin_uniform_axis:
  assumes "0 \<le> s" "0 < n"
  shows "amin (uniform_axis a s n) = a"
proof -
  have ne: "uniform_axis a s n \<noteq> []" using assms by (simp add: uniform_axis_Nil_iff)
  have "Min (set (uniform_axis a s n)) = a"
  proof (rule Min_eqI)
    show "finite (set (uniform_axis a s n))" by simp
    show "a \<le> y" if "y \<in> set (uniform_axis a s n)" for y
      using that assms by (auto simp: uniform_axis_def)
    show "a \<in> set (uniform_axis a s n)"
    proof -
      have "uniform_axis a s n ! 0 = a" using assms by (simp add: nth_uniform_axis)
      moreover have "0 < length (uniform_axis a s n)" using assms by (simp add: length_uniform_axis)
      ultimately show ?thesis by (metis nth_mem)
    qed
  qed
  with ne show ?thesis by (simp add: amin_eq_Min)
qed

lemma amax_uniform_axis:
  assumes "0 \<le> s" "0 < n"
  shows "amax (uniform_axis a s n) = a + real (n - 1) * s"
proof -
  have ne: "uniform_axis a s n \<noteq> []" using assms by (simp add: uniform_axis_Nil_iff)
  have "Max (set (uniform_axis a s n)) = a + real (n - 1) * s"
  proof (rule Max_eqI)
    show "finite (set (uniform_axis a s n))" by simp
    show "y \<le> a + real (n - 1) * s" if "y \<in> set (uniform_axis a s n)" for y
    proof -
      from that obtain i where i: "i < n" "y = a + real i * s" by (auto simp: uniform_axis_def)
      then have "real i \<le> real (n - 1)" by simp
      then have "real i * s \<le> real (n - 1) * s" using assms(1) by (rule mult_right_mono)
      with i show ?thesis by simp
    qed
    show "a + real (n - 1) * s \<in> set (uniform_axis a s n)"
    proof -
      have "uniform_axis a s n ! (n - 1) = a + real (n - 1) * s"
        using assms by (simp add: nth_uniform_axis)
      moreover have "n - 1 < length (uniform_axis a s n)"
        using assms by (simp add: length_uniform_axis)
      ultimately show ?thesis by (metis nth_mem)
    qed
  qed
  with ne show ?thesis by (simp add: amax_eq_Max)
qed

lemma arange_uniform_axis:
  "s \<noteq> 0 \<Longrightarrow> arange start stop s = Inr (uniform_axis start s (nat \<lceil>(stop - start) / s\<rceil>))"
  by (simp add: arange_def uniform_axis_def)

lemma uniform_axis_append:
  "uniform_axis a s m @ uniform_axis (a + real m * s) s k = uniform_axis a s (m + k)"
proof (rule nth_equalityI)
  show "length (uniform_axis a s m @ uniform_axis (a + real m * s) s k)
          = length (uniform_axis a s (m + k))"
    by (simp add: length_uniform_axis)
next
  fix i assume "i < length (uniform_axis a s m @ uniform_axis (a + real m * s) s k)"
  then have i: "i < m + k" by (simp add: length_uniform_axis)
  show "(uniform_axis a s m @ uniform_axis (a + real m * s) s k) ! i = uniform_axis a s (m + k) ! i"
  proof (cases "i < m")
    case True
    then show ?thesis using i by (simp add: nth_append length_uniform_axis nth_uniform_axis)
  next
    case False
    then have "real (i - m) = real i - real m" by simp
    then have "a + real m * s + real (i - m) * s = a + real i * s"
      by (simp add: left_diff_distrib)
    with False i show ?thesis
      by (simp add: nth_append length_uniform_axis nth_uniform_axis)
  qed
qed

lemma ceiling_minus_half: "\<lceil>real_of_int w - 1 / 2\<rceil> = w"
  by (simp add: ceiling_eq_iff)

lemma extend_uniform_axis:
  assumes s: "0 < s" and w: "0 \<le> w" and n: "2 \<le> n \<or> w = 0"
  shows "extend_array (uniform_axis a s n) w ''both''
           = Inr (uniform_axis (a - real_of_int w * s) s (n + 2 * nat w))"
proof (cases "w = 0")
  case True
  then show ?thesis by (simp add: extend_array_def)
next
  case False
  with n w have n2: "2 \<le> n" and wpos: "0 < w" by simp_all
  have step: "mean (ediff1d (uniform_axis a s n)) = Some s"
    using n2 by (simp add: ediff1d_uniform_axis mean_replicate)
  have lo: "amin (uniform_axis a s n) = a"
    using s n2 by (simp add: amin_uniform_axis)
  have hi: "amax (uniform_axis a s n) = a + real (n - 1) * s"
    using s n2 by (simp add: amax_uniform_axis)
  have c1: "\<lceil>(a - (a - real_of_int w * s)) / s\<rceil> = w"
    using s by simp
  have "(a + real (n - 1) * s + real_of_int w * s + s / 2 - (a + real (n - 1) * s + s)) / s
          = real_of_int w - 1 / 2"
    using s by (simp add: field_simps)
  then have c2: "\<lceil>(a + real (n - 1) * s + real_of_int w * s + s / 2
                     - (a + real (n - 1) * s + s)) / s\<rceil> = w"
    by (simp only: ceiling_minus_half)
  have sn: "s \<noteq> 0" using s by simp
  have below: "arange (a - real_of_int w * s) a s = Inr (uniform_axis (a - real_of_int w * s) s (nat w))"
    unfolding arange_uniform_axis [OF sn] c1 ..
  have above: "arange (a + real (n - 1) * s + s) (a + real (n - 1) * s + real_of_int w * s + s / 2) s
                 = Inr (uniform_axis (a + real (n - 1) * s + s) s (nat w))"
    unfolding arange_uniform_axis [OF sn] c2 ..
  have e1: "a - real_of_int w * s + real (nat w) * s = a"
    using w by simp
  have e2: "a - real_of_int w * s + real (nat w + n) * s = a + real (n - 1) * s + s"
    using w n2 by (simp add: algebra_simps of_nat_diff)
  have A: "uniform_axis (a - real_of_int w * s) s (nat w) @ uniform_axis a s n
            = uniform_axis (a - real_of_int w * s) s (nat w + n)"
    using uniform_axis_append [of "a - real_of_int w * s" s "nat w" n] unfolding e1 .
  have B: "uniform_axis (a - real_of_int w * s) s (nat w + n)
              @ uniform_axis (a + real (n - 1) * s + s) s (nat w)
            = uniform_axis (a - real_of_int w * s) s (nat w + n + nat w)"
    using uniform_axis_append [of "a - real_of_int w * s" s "nat w + n" "nat w"] unfolding e2 .
  have C: "nat w + n + nat w = n + 2 * nat w" by simp
  have "uniform_axis (a - real_of_int w * s) s (nat w) @ uniform_axis a s n
            @ uniform_axis (a + real (n - 1) * s + s) s (nat w)
          = uniform_axis (a - real_of_int w * s) s (n + 2 * nat w)"
    unfolding append_assoc [symmetric] A B C ..
  then show ?thesis
    using False by (simp add: extend_array_def step lo hi below above del: One_nat_def)
qed

section \<open>Properties of \<^verbatim>\<open>compute_shift\<close>\<close>

subsection \<open>Evaluation on point clouds of one point\<close>

lemma ceil_half: "\<lceil>1 / 2 :: real\<rceil> = 1"
  by (simp add: ceiling_eq_iff)

lemma ceil_tiny: "\<lceil>1 / 100000000000000000000000000000000000000000000000000 :: real\<rceil> = 1"
  by (simp add: ceiling_eq_iff)

lemma astype_int_one: "astype_int 1 = 1"
  by (simp add: astype_int_def)

lemmas refined_eval = refined_shifts_def mean_def ediff1d_def arange_def Let_def upt_conv_Cons
  ceil_half ceil_tiny astype_int_one

lemmas candidates_eval = candidates_def meshgrid_def setdiff2d_def

lemmas compute_eval = compute_shift_def widened_search_def refined_search_def scale_z_def
  scaled_def meshgrid_def astype_int_def Let_def

lemma refined_single: "refined_shifts [a] b r e = Inr [a]"
  by (simp add: refined_shifts_def)

lemma score_on_y_axis:
  "shift_score (kneighbors [(t, 0, 0)] (add_shift [(0, 0, 0)] (y, 0, 0))) 2 = exp (- ((y - t)\<^sup>2) / 8)"
  by (simp add: shift_score_def kneighbors_def add_shift_def distance_def)

lemma score_on_z_axis:
  "shift_score (kneighbors [(0, 0, t)] (add_shift [(0, 0, 0)] (0, 0, z))) 2 = exp (- ((z - t)\<^sup>2) / 8)"
  by (simp add: shift_score_def kneighbors_def add_shift_def distance_def)

lemma median_single: "median [a] = a"
  by (simp add: median_def)

lemma iqr_single: "iqr [a] = 0"
  by (simp add: iqr_def percentile_def)



lemma coarse_at_origin:
  "get_best_shift [(0, 0, 0)] [(0, 0, 0)] 2 [-1, 0] [0] [0] None =
     Inr ((0, 0, 0), 1, median [exp (- (1 / 8)), 1], iqr [exp (- (1 / 8)), 1])"
  by (simp add: get_best_shift_def candidates_eval score_on_y_axis Let_def)

subsection \<open>The threshold when \<open>min_score\<close> is \<open>None\<close>\<close>





subsection \<open>The widened search\<close>

lemma max_widen_pos:
  "0 \<le> y_widen \<Longrightarrow> 0 \<le> x_widen \<Longrightarrow> 0 \<le> z_widen \<Longrightarrow>
     0 < max y_widen (max x_widen z_widen) \<longleftrightarrow> y_widen \<noteq> 0 \<or> x_widen \<noteq> 0 \<or> (z_widen::int) \<noteq> 0"
  by auto

lemma widened_search_uniform:
  assumes "0 \<le> y_widen" and "0 \<le> x_widen" and "0 \<le> z_widen"
    and "sv_y_shifts v = uniform_axis ya ystep yn" and "0 < ystep" and "2 \<le> yn \<or> y_widen = 0"
    and "sv_x_shifts v = uniform_axis xa xstep xn" and "0 < xstep" and "2 \<le> xn \<or> x_widen = 0"
    and "sv_z_shifts v = uniform_axis za zstep zn" and "0 < zstep" and "2 \<le> zn \<or> z_widen = 0"
  shows "widened_search yxz_base yxz_transform thresh z_scale initial_shifts min_score
             y_widen x_widen z_widen v =
           (if sv_score v < min_score \<and> (y_widen \<noteq> 0 \<or> x_widen \<noteq> 0 \<or> z_widen \<noteq> 0) then
              (case get_best_shift yxz_base yxz_transform thresh
                      (uniform_axis (ya - real_of_int y_widen * ystep) ystep (yn + 2 * nat y_widen))
                      (uniform_axis (xa - real_of_int x_widen * xstep) xstep (xn + 2 * nat x_widen))
                      (scaled z_scale
                         (uniform_axis (za - real_of_int z_widen * zstep) zstep (zn + 2 * nat z_widen)))
                      (Some initial_shifts) of
                 Inl e \<Rightarrow> Inl e
               | Inr (shift, score, m, i) \<Rightarrow>
                   Inr \<lparr>sv_y_shifts =
                          uniform_axis (ya - real_of_int y_widen * ystep) ystep (yn + 2 * nat y_widen),
                        sv_x_shifts =
                          uniform_axis (xa - real_of_int x_widen * xstep) xstep (xn + 2 * nat x_widen),
                        sv_z_shifts =
                          uniform_axis (za - real_of_int z_widen * zstep) zstep (zn + 2 * nat z_widen),
                        sv_shift = shift, sv_score = score\<rparr>)
            else Inr v)"
proof -
  have y: "extend_array (sv_y_shifts v) y_widen ''both''
             = Inr (uniform_axis (ya - real_of_int y_widen * ystep) ystep (yn + 2 * nat y_widen))"
    unfolding assms(4) by (rule extend_uniform_axis) fact+
  have x: "extend_array (sv_x_shifts v) x_widen ''both''
             = Inr (uniform_axis (xa - real_of_int x_widen * xstep) xstep (xn + 2 * nat x_widen))"
    unfolding assms(7) by (rule extend_uniform_axis) fact+
  have z: "extend_array (sv_z_shifts v) z_widen ''both''
             = Inr (uniform_axis (za - real_of_int z_widen * zstep) zstep (zn + 2 * nat z_widen))"
    unfolding assms(10) by (rule extend_uniform_axis) fact+
  show ?thesis
    by (simp only: widened_search_def max_widen_pos [OF assms(1) assms(2) assms(3)] y x z sum.case)
qed

lemma widened_axis_example: "uniform_axis (- 1) 1 4 = [-1, 0, 1, 2]"
  by (simp add: uniform_axis_def upt_conv_Cons)

lemma widened_search_example:
  "get_best_shift [(0, 0, 0)] [(3, 0, 0)] 2 [-1, 0, 1, 2] [0] [0] (Some [(0, 0, 0), (1, 0, 0)]) =
     Inr ((2, 0, 0), exp (- (1 / 8)), median [exp (- 2), exp (- (1 / 8))], iqr [exp (- 2), exp (- (1 / 8))])"
  by (simp add: get_best_shift_def candidates_eval score_on_y_axis Let_def)

lemma coarse_far:
  "get_best_shift [(0, 0, 0)] [(3, 0, 0)] 2 [0, 1] [0] [0] None =
     Inr ((1, 0, 0), exp (- (1 / 2)),
          median [exp (- (9 / 8)), exp (- (1 / 2))], iqr [exp (- (9 / 8)), exp (- (1 / 2))])"
  by (simp add: get_best_shift_def candidates_eval score_on_y_axis Let_def)

lemma refined_search_not_entered:
  "\<not> min_score < sv_score v \<Longrightarrow>
     refined_search yxz_base yxz_transform thresh z_scale initial_shifts min_score v
       = Inr (sv_shift v, sv_score v)"
  by (simp add: refined_search_def)

text \<open>
  C6, as amended. In \<open>compute_shift\<close>, for widen counts that are not negative and axes of
  integer values with a uniform positive step, where an axis with a nonzero widen count has
  at least two values: after a coarse search that returns, the search is run again exactly
  when the coarse score is below \<open>min_score\<close> and some widen count is not zero. It is then
  run on the axes extended by their widen count of steps below and above, the step kept,
  and the shifts it searches are those of the extended grid that are not in the coarse
  grid; the refined search goes on from its result. Otherwise the refined search goes on
  from the coarse result.
\<close>

theorem compute_shift_widened_search:
  fixes ya ystep xa xstep za zstep :: int
  assumes "0 \<le> y_widen" and "0 \<le> x_widen" and "0 \<le> z_widen"
    and "ys = uniform_axis (real_of_int ya) (real_of_int ystep) yn"
    and "0 < ystep" and "2 \<le> yn \<or> y_widen = 0"
    and "xs = uniform_axis (real_of_int xa) (real_of_int xstep) xn"
    and "0 < xstep" and "2 \<le> xn \<or> x_widen = 0"
    and "zs = uniform_axis (real_of_int za) (real_of_int zstep) zn"
    and "0 < zstep" and "2 \<le> zn \<or> z_widen = 0"
    and "get_best_shift (scale_z z_scale yxz_base) (scale_z z_scale yxz_transform) thresh
           ys xs (scaled z_scale zs) None = Inr (shift, score, med, iq)"
    and "min_score = (case min_score0 of None \<Rightarrow> med + k * iq | Some m \<Rightarrow> m)"
  shows "snd (snd (compute_shift yxz_base yxz_transform min_score0 k thresh ys xs zs
                     y_widen x_widen z_widen z_scale)) =
           (case (if score < min_score \<and> (y_widen \<noteq> 0 \<or> x_widen \<noteq> 0 \<or> z_widen \<noteq> 0) then
                    (case get_best_shift (scale_z z_scale yxz_base) (scale_z z_scale yxz_transform)
                            thresh
                            (uniform_axis (real_of_int (ya - y_widen * ystep)) (real_of_int ystep)
                               (yn + 2 * nat y_widen))
                            (uniform_axis (real_of_int (xa - x_widen * xstep)) (real_of_int xstep)
                               (xn + 2 * nat x_widen))
                            (scaled z_scale
                               (uniform_axis (real_of_int (za - z_widen * zstep)) (real_of_int zstep)
                                  (zn + 2 * nat z_widen)))
                            (Some (meshgrid ys xs (scaled z_scale zs))) of
                       Inl e \<Rightarrow> Inl e
                     | Inr (shift2, score2, m2, i2) \<Rightarrow>
                         refined_search (scale_z z_scale yxz_base) (scale_z z_scale yxz_transform)
                           thresh z_scale (meshgrid ys xs (scaled z_scale zs)) min_score
                           \<lparr>sv_y_shifts =
                              uniform_axis (real_of_int (ya - y_widen * ystep)) (real_of_int ystep)
                                (yn + 2 * nat y_widen),
                            sv_x_shifts =
                              uniform_axis (real_of_int (xa - x_widen * xstep)) (real_of_int xstep)
                                (xn + 2 * nat x_widen),
                            sv_z_shifts =
                              uniform_axis (real_of_int (za - z_widen * zstep)) (real_of_int zstep)
                                (zn + 2 * nat z_widen),
                            sv_shift = shift2, sv_score = score2\<rparr>)
                  else
                    refined_search (scale_z z_scale yxz_base) (scale_z z_scale yxz_transform)
                      thresh z_scale (meshgrid ys xs (scaled z_scale zs)) min_score
                      \<lparr>sv_y_shifts = ys, sv_x_shifts = xs, sv_z_shifts = zs,
                       sv_shift = shift, sv_score = score\<rparr>) of
              Inl e \<Rightarrow> Inl e
            | Inr ((shift_y, shift_x, shift_z), score_out) \<Rightarrow>
                Inr ((astype_int shift_y, astype_int shift_x, astype_int shift_z),
                     score_out, min_score))
       \<and> set (candidates
                (uniform_axis (real_of_int (ya - y_widen * ystep)) (real_of_int ystep)
                   (yn + 2 * nat y_widen))
                (uniform_axis (real_of_int (xa - x_widen * xstep)) (real_of_int xstep)
                   (xn + 2 * nat x_widen))
                (scaled z_scale
                   (uniform_axis (real_of_int (za - z_widen * zstep)) (real_of_int zstep)
                      (zn + 2 * nat z_widen)))
                (Some (meshgrid ys xs (scaled z_scale zs))))
           = {(y, x, z).
                y \<in> set (uniform_axis (real_of_int (ya - y_widen * ystep)) (real_of_int ystep)
                            (yn + 2 * nat y_widen))
              \<and> x \<in> set (uniform_axis (real_of_int (xa - x_widen * xstep)) (real_of_int xstep)
                            (xn + 2 * nat x_widen))
              \<and> z \<in> set (scaled z_scale
                            (uniform_axis (real_of_int (za - z_widen * zstep)) (real_of_int zstep)
                               (zn + 2 * nat z_widen)))}
             - {(y, x, z). y \<in> set ys \<and> x \<in> set xs \<and> z \<in> set (scaled z_scale zs)}"
proof (intro conjI, goal_cases)
  case 1
  let ?B = "scale_z z_scale yxz_base" and ?T = "scale_z z_scale yxz_transform"
  let ?G = "meshgrid ys xs (scaled z_scale zs)"
  let ?v = "\<lparr>sv_y_shifts = ys, sv_x_shifts = xs, sv_z_shifts = zs,
             sv_shift = shift, sv_score = score\<rparr>"
  have a: "sv_y_shifts ?v = uniform_axis (real_of_int ya) (real_of_int ystep) yn"
    "sv_x_shifts ?v = uniform_axis (real_of_int xa) (real_of_int xstep) xn"
    "sv_z_shifts ?v = uniform_axis (real_of_int za) (real_of_int zstep) zn"
    using assms(4,7,10) by simp_all
  have s: "0 < real_of_int ystep" "0 < real_of_int xstep" "0 < real_of_int zstep"
    using assms(5,8,11) by simp_all
  note ws = widened_search_uniform [OF assms(1) assms(2) assms(3) a(1) s(1) assms(6)
      a(2) s(2) assms(9) a(3) s(3) assms(12), of ?B ?T thresh z_scale ?G min_score,
      unfolded search_vars.select_convs]
  have cs: "snd (snd (compute_shift yxz_base yxz_transform min_score0 k thresh ys xs zs
                     y_widen x_widen z_widen z_scale)) =
          (case widened_search ?B ?T thresh z_scale ?G min_score y_widen x_widen z_widen ?v of
             Inl e \<Rightarrow> Inl e
           | Inr v \<Rightarrow>
               (case refined_search ?B ?T thresh z_scale ?G min_score v of
                  Inl e \<Rightarrow> Inl e
                | Inr ((shift_y, shift_x, shift_z), score_out) \<Rightarrow>
                    Inr ((astype_int shift_y, astype_int shift_x, astype_int shift_z),
                         score_out, min_score)))"
    unfolding assms(14) by (simp add: compute_shift_def Let_def assms(13))
  show ?case
  proof (cases "score < min_score \<and> (y_widen \<noteq> 0 \<or> x_widen \<noteq> 0 \<or> z_widen \<noteq> 0)")
    case True
    show ?thesis
      unfolding cs ws if_P [OF True] of_int_diff of_int_mult
      by (auto split: sum.splits prod.splits)
  next
    case False
    show ?thesis
      unfolding cs ws if_not_P [OF False] of_int_diff of_int_mult
      by simp
  qed
next
  case 2
  show ?case
    by (simp add: candidates_def set_setdiff2d set_meshgrid)
qed

theorem compute_shift_widened_search_witness:
  "snd (snd (compute_shift [(0, 0, 0)] [(3, 0, 0)] (Some 1) 5 2 [0, 1] [0] [0] 1 0 0 1))
     = Inr ((2, 0, 0), exp (- (1 / 8)), 1)
   \<and> set (candidates [-1, 0, 1, 2] [0] [0] (Some [(0, 0, 0), (1, 0, 0)]))
       = {(y, x, z). y \<in> {-1, 0, 1, 2} \<and> x = 0 \<and> z = 0}
           - {(y, x, z). y \<in> {0, 1} \<and> x = 0 \<and> z = 0}"
proof -
  have w: "(0::int) \<le> 1" "(0::int) \<le> 0" by simp_all
  have y: "[0, 1] = uniform_axis (real_of_int 0) (real_of_int 1) 2" "(0::int) < 1"
      "2 \<le> (2::nat) \<or> (1::int) = 0"
    by (simp_all add: uniform_axis_def upt_conv_Cons)
  have x: "[0] = uniform_axis (real_of_int 0) (real_of_int 1) 1" "2 \<le> (1::nat) \<or> (0::int) = 0"
    by (simp_all add: uniform_axis_def)
  have c: "get_best_shift (scale_z 1 [(0, 0, 0)]) (scale_z 1 [(3, 0, 0)]) 2 [0, 1] [0] (scaled 1 [0]) None
             = Inr ((1, 0, 0), exp (- (1 / 2)),
                    median [exp (- (9 / 8)), exp (- (1 / 2))], iqr [exp (- (9 / 8)), exp (- (1 / 2))])"
    by (simp add: scale_z_def scaled_def coarse_far)
  have m: "(1::real) = (case Some 1 of None \<Rightarrow>
              median [exp (- (9 / 8)), exp (- (1 / 2))] + 5 * iqr [exp (- (9 / 8)), exp (- (1 / 2))]
            | Some m \<Rightarrow> m)"
    by simp
  note th = compute_shift_widened_search [OF w(1) w(2) w(2) y(1) y(2) y(3) x(1) y(2) x(2) x(1) y(2) x(2) c m]
  have wide: "uniform_axis (real_of_int (0 - 1 * 1)) (real_of_int 1) (2 + 2 * nat 1) = [-1, 0, 1, 2]"
    using widened_axis_example by simp
  have same: "uniform_axis (real_of_int (0 - 0 * 1)) (real_of_int 1) (1 + 2 * nat 0) = [0]"
    by (simp add: uniform_axis_def)
  have lt: "\<not> (1::real) < exp (- (1 / 8))" by simp
  from th show ?thesis
    unfolding wide same
    by (simp add: scaled_def scale_z_def meshgrid_def widened_search_example
        refined_search_not_entered astype_int_def)
qed

text \<open>
  The claim as stated is for every axis and every widen count. With the one-value x axis
  and \<open>x_widen = 1\<close> the axis has no step, \<^verbatim>\<open>np.arange\<close> raises ValueError and the search is
  not run again. With \<open>y_widen = -1\<close> the test \<^verbatim>\<open>np.max([y_widen, x_widen, z_widen]) > 0\<close>
  fails, and the call returns the coarse shift although the score is below \<open>min_score\<close>
  and a widen count is not zero.
\<close>

theorem compute_shift_widening_not_performed:
  "snd (snd (compute_shift [(0, 0, 0)] [(3, 0, 0)] (Some 1) 5 2 [0, 1] [0] [0] 0 1 0 1))
     = Inl ValueError
   \<and> snd (snd (compute_shift [(0, 0, 0)] [(3, 0, 0)] (Some 1) 5 2 [0, 1] [0] [0] (- 1) 0 0 1))
     = Inr ((1, 0, 0), exp (- (1 / 2)), 1)
   \<and> exp (- (1 / 2)) < (1::real)"
  by (simp add: compute_eval coarse_far extend_array_def mean_def ediff1d_def)

subsection \<open>The returned z shift\<close>

lemma coarse_on_z_axis:
  "get_best_shift [(0, 0, 0)] [(0, 0, 2)] 2 [0] [0] [2] None = Inr ((0, 0, 2), 1, 1, 0)"
  by (simp add: get_best_shift_def candidates_eval score_on_z_axis Let_def median_single iqr_single)

text \<open>
  C2 fails on the code. The base point \<open>(0, 0, 0)\<close> and the target point \<open>(0, 0, 1)\<close> differ by
  the z shift \<open>1\<close>, the only candidate. With \<open>z_scale = 2\<close> and \<open>min_score = 5\<close> the score \<open>1\<close>
  does not exceed \<open>min_score\<close>, the refined search is not entered, and the call returns the
  z shift \<open>2\<close>: the candidate times \<open>z_scale\<close>, not divided by it.
\<close>

theorem compute_shift_z_stays_scaled_without_refinement:
  "snd (snd (compute_shift [(0, 0, 0)] [(0, 0, 1)] (Some 5) 5 2 [0] [0] [1] 0 0 0 2))
     = Inr ((0, 0, 2), 1, 5)"
  by (simp add: compute_eval coarse_on_z_axis)

subsection \<open>The arrays of the caller\<close>

lemma compute_shift_arrays_after:
  "fst (compute_shift yxz_base yxz_transform min_score k thresh ys xs zs
          y_widen x_widen z_widen z_scale) = scale_z z_scale yxz_base
   \<and> fst (snd (compute_shift yxz_base yxz_transform min_score k thresh ys xs zs
          y_widen x_widen z_widen z_scale)) = scale_z z_scale yxz_transform"
  by (simp add: compute_shift_def Let_def)

text \<open>
  C3 fails on the code. After a call with \<open>z_scale = 2\<close> the z coordinates in both arrays of
  the caller are twice what they were.
\<close>

theorem compute_shift_rescales_caller_arrays:
  "fst (compute_shift [(4, 5, 1)] [(7, 8, 3)] (Some 5) 5 2 [0] [0] [1] 0 0 0 2) = [(4, 5, 2)]
   \<and> fst (snd (compute_shift [(4, 5, 1)] [(7, 8, 3)] (Some 5) 5 2 [0] [0] [1] 0 0 0 2))
       = [(7, 8, 6)]"
  by (simp add: compute_shift_arrays_after scale_z_def)

subsection \<open>The refined searches\<close>

lemma refined_y_at_origin: "refined_shifts [-1, 0] 0 (1 / 2) 2 = Inr [-2, -1, 0, 1, 2]"
  by (simp add: refined_eval)

lemma first_refined_at_origin:
  "get_best_shift [(0, 0, 0)] [(0, 0, 0)] 2 [-2, -1, 0, 1, 2] [0] [0] (Some [(-1, 0, 0), (0, 0, 0)]) =
     Inr ((1, 0, 0), exp (- (1 / 8)),
          median [exp (- (1 / 2)), exp (- (1 / 8)), exp (- (1 / 2))],
          iqr [exp (- (1 / 2)), exp (- (1 / 8)), exp (- (1 / 2))])"
  by (simp add: get_best_shift_def candidates_eval score_on_y_axis Let_def)

lemma final_y_at_origin:
  "refined_shifts [-2, -1, 0, 1, 2] 0 (1 / 100000000000000000000000000000000000000000000000000) 1
     = Inr [-1, 0, 1]"
  by (simp add: refined_eval)

lemma final_refined_at_origin:
  "get_best_shift [(0, 0, 0)] [(0, 0, 0)] 2 [-1, 0, 1] [0] [0] (Some [(-1, 0, 0), (0, 0, 0)]) =
     Inr ((1, 0, 0), exp (- (1 / 8)), median [exp (- (1 / 8))], iqr [exp (- (1 / 8))])"
  by (simp add: get_best_shift_def candidates_eval score_on_y_axis Let_def)

text \<open>
  C5 fails on the code. Base and target are the one point \<open>(0, 0, 0)\<close>, the y candidates are
  \<open>-1\<close> and \<open>0\<close>. The coarse search finds the shift \<open>(0, 0, 0)\<close> with score \<open>1\<close>, above
  \<open>min_score = 1/2\<close>. Both refined searches leave out the coarse grid; the first finds the
  score \<open>exp (-1/8)\<close> and is not taken, since it is no improvement. The result of the last
  one is taken without a comparison: the call returns the shift \<open>(1, 0, 0)\<close> with the score
  \<open>exp (-1/8) < 1\<close>.
\<close>

theorem compute_shift_final_refinement_lowers_score:
  "get_best_shift [(0, 0, 0)] [(0, 0, 0)] 2 [-1, 0] [0] [0] None =
     Inr ((0, 0, 0), 1, median [exp (- (1 / 8)), 1], iqr [exp (- (1 / 8)), 1])
   \<and> snd (snd (compute_shift [(0, 0, 0)] [(0, 0, 0)] (Some (1 / 2)) 5 2 [-1, 0] [0] [0] 0 0 0 1))
       = Inr ((1, 0, 0), exp (- (1 / 8)), 1 / 2)
   \<and> exp (- (1 / 8)) < (1::real)"
  by (simp add: compute_eval coarse_at_origin refined_y_at_origin first_refined_at_origin
      final_y_at_origin final_refined_at_origin refined_single)

lemma coarse_at_translation:
  "get_best_shift [(0, 0, 0)] [(1, 0, 0)] 2 [0, 1] [0] [0] None =
     Inr ((1, 0, 0), 1, median [exp (- (1 / 8)), 1], iqr [exp (- (1 / 8)), 1])"
  by (simp add: get_best_shift_def candidates_eval score_on_y_axis Let_def)

lemma refined_y_at_translation: "refined_shifts [0, 1] 1 (1 / 2) 2 = Inr [-1, 0, 1, 2, 3]"
  by (simp add: refined_eval)

lemma first_refined_at_translation:
  "get_best_shift [(0, 0, 0)] [(1, 0, 0)] 2 [-1, 0, 1, 2, 3] [0] [0] (Some [(0, 0, 0), (1, 0, 0)]) =
     Inr ((2, 0, 0), exp (- (1 / 8)),
          median [exp (- (1 / 2)), exp (- (1 / 8)), exp (- (1 / 2))],
          iqr [exp (- (1 / 2)), exp (- (1 / 8)), exp (- (1 / 2))])"
  by (simp add: get_best_shift_def candidates_eval score_on_y_axis Let_def)

lemma final_y_at_translation:
  "refined_shifts [-1, 0, 1, 2, 3] 1 (1 / 100000000000000000000000000000000000000000000000000) 1
     = Inr [0, 1, 2]"
  by (simp add: refined_eval)

lemma final_refined_at_translation:
  "get_best_shift [(0, 0, 0)] [(1, 0, 0)] 2 [0, 1, 2] [0] [0] (Some [(0, 0, 0), (1, 0, 0)]) =
     Inr ((2, 0, 0), exp (- (1 / 8)), median [exp (- (1 / 8))], iqr [exp (- (1 / 8))])"
  by (simp add: get_best_shift_def candidates_eval score_on_y_axis Let_def)

text \<open>
  C8 fails on the code. The target is the base translated by \<open>v = (1, 0, 0)\<close>, and \<open>v\<close> is
  a shift of the candidate grid. The coarse search finds \<open>v\<close>; the refined searches leave
  out the coarse grid and with it \<open>v\<close>, and the call returns \<open>(2, 0, 0)\<close>.
\<close>

theorem compute_shift_misses_translation_on_grid:
  "add_shift [(0, 0, 0)] (1, 0, 0) = [(1, 0, 0)]
   \<and> snd (snd (compute_shift [(0, 0, 0)] [(1, 0, 0)] (Some (1 / 2)) 5 2 [0, 1] [0] [0] 0 0 0 1))
       = Inr ((2, 0, 0), exp (- (1 / 8)), 1 / 2)"
  by (simp add: compute_eval coarse_at_translation refined_y_at_translation
      first_refined_at_translation final_y_at_translation final_refined_at_translation
      refined_single add_shift_def)

end
